theory Spec2Isabelle
  imports Main "HOL-Library.Sublist"
begin

section \<open>Python values and dictionaries\<close>

text \<open>
  The values that \<^verbatim>\<open>forensics.py\<close> stores in dictionaries (entries of
  \<^verbatim>\<open>img.info\<close>, EXIF tag values, error messages) and their truth value, which
  \<^verbatim>\<open>basic_metadata['Software']\<close> is tested for.
\<close>

datatype pyval = PStr string | PInt int | PTuple "pyval list" | PNone

fun truthy :: "pyval \<Rightarrow> bool" where
  "truthy (PStr s) = (s \<noteq> [])"
| "truthy (PInt n) = (n \<noteq> 0)"
| "truthy (PTuple vs) = (vs \<noteq> [])"
| "truthy PNone = False"

text \<open>A \<^verbatim>\<open>dict\<close> with string keys: an association list, looked up by key.\<close>

type_synonym dict = "(string \<times> pyval) list"

definition key_in :: "string \<Rightarrow> dict \<Rightarrow> bool" where
  "key_in k d = (map_of d k \<noteq> None)"

text \<open>The exceptions that are not caught inside the function that raises them.\<close>

datatype exn = KeyError string | ValueError string

definition subscript :: "dict \<Rightarrow> string \<Rightarrow> exn + pyval" where
  "subscript d k = (case map_of d k of None \<Rightarrow> Inl (KeyError k) | Some v \<Rightarrow> Inr v)"

text \<open>The failure value of the helpers: the dictionary \<^verbatim>\<open>{"error": msg}\<close>.\<close>

definition error_dict :: "string \<Rightarrow> dict" where
  "error_dict msg = [(''error'', PStr msg)]"

text \<open>
  \<^verbatim>\<open>needle in text\<close> on a \<^verbatim>\<open>str\<close>: the needle occurs as a contiguous run of
  characters.
\<close>

fun str_contains :: "string \<Rightarrow> string \<Rightarrow> bool" where
  "str_contains needle [] = (needle = [])"
| "str_contains needle (c # cs) = (prefix needle (c # cs) \<or> str_contains needle cs)"

section \<open>Floating-point products of the tolerance test\<close>

text \<open>
  \<^verbatim>\<open>res[0] * 0.9\<close> multiplies an \<^verbatim>\<open>int\<close> by a binary64 literal: the integer is
  converted exactly (it is far below \<open>2 ^ 53\<close>), the exact product is rounded to 53
  significant bits, ties to even, and \<^verbatim>\<open>width >= ...\<close> compares the integer with
  that double exactly. A double is kept as a pair \<open>(m, k)\<close> standing for \<open>m / 2 ^ k\<close>;
  the products of this program are of the order of \<open>10 ^ 3\<close>, so neither overflow
  nor subnormal numbers occur.
\<close>

type_synonym dyadic = "int \<times> nat"

fun bit_length :: "int \<Rightarrow> nat" where
  "bit_length n = (if n \<le> 0 then 0 else Suc (bit_length (n div 2)))"

declare bit_length.simps [simp del]

definition round_half_even :: "int \<Rightarrow> nat \<Rightarrow> int" where
  "round_half_even n s =
     (let q = n div 2 ^ s; r = n mod 2 ^ s
      in if 2 ^ s < 2 * r \<or> (2 * r = 2 ^ s \<and> odd q) then q + 1 else q)"

definition round_to_double :: "dyadic \<Rightarrow> dyadic" where
  "round_to_double d =
     (let n = fst d; b = bit_length \<bar>n\<bar>
      in if b \<le> 53 then d
         else (sgn n * round_half_even \<bar>n\<bar> (b - 53) * 2 ^ (b - 53), snd d))"

text \<open>The literals: \<^verbatim>\<open>(0.9).hex()\<close> is \<^verbatim>\<open>0x1.ccccccccccccdp-1\<close> and
  \<^verbatim>\<open>(1.1).hex()\<close> is \<^verbatim>\<open>0x1.199999999999ap+0\<close>.\<close>

definition float_0_9 :: dyadic where
  "float_0_9 = (8106479329266893, 53)"

definition float_1_1 :: dyadic where
  "float_1_1 = (4953959590107546, 52)"

definition int_times_float :: "int \<Rightarrow> dyadic \<Rightarrow> dyadic" where
  "int_times_float n d = round_to_double (n * fst d, snd d)"

definition int_ge_float :: "int \<Rightarrow> dyadic \<Rightarrow> bool" where
  "int_ge_float w d = (fst d \<le> w * 2 ^ snd d)"

definition int_le_float :: "int \<Rightarrow> dyadic \<Rightarrow> bool" where
  "int_le_float w d = (w * 2 ^ snd d \<le> fst d)"

section \<open>Images, files and the external libraries\<close>

type_synonym bytes = "nat list"

text \<open>A decoded PIL image: \<^verbatim>\<open>img.size\<close>, \<^verbatim>\<open>img.info\<close> and its pixel data.\<close>

record image =
  img_size :: "int \<times> int"
  img_info :: dict
  img_data :: "nat list"

type_synonym gray = "nat list list"

text \<open>
  What \<^verbatim>\<open>subprocess.run\<close> returns: the exit code, and what
  \<^verbatim>\<open>.decode('utf-8')\<close> gives on each captured stream (\<open>Inl\<close> the text of the
  \<^verbatim>\<open>UnicodeDecodeError\<close>).
\<close>

record completed_process =
  returncode :: int
  stdout_decoded :: "string + string"
  stderr_decoded :: "string + string"

text \<open>
  The outcome of \<^verbatim>\<open>Image.save\<close>: the encoded file, or the exception text together
  with what the failed attempt leaves at the target path.
\<close>

datatype save_outcome = Save_ok bytes | Save_failed string "bytes option"

text \<open>
  The libraries the program calls, as functions of the file contents they read. \<open>Inl\<close>
  carries \<^verbatim>\<open>str(e)\<close> of the exception the call raises.
\<close>

record env =
  errno_text :: "string \<Rightarrow> string"
  pil_decode :: "bytes \<Rightarrow> string + image"
  exifread_process_file :: "bytes \<Rightarrow> string + dict"
  run_exiftool :: "string \<Rightarrow> bytes option \<Rightarrow> string + completed_process"
  cv2_imread_gray :: "bytes option \<Rightarrow> gray option"
  cv2_Canny :: "gray \<Rightarrow> int \<Rightarrow> int \<Rightarrow> gray"
  jpeg_save :: "image \<Rightarrow> int \<Rightarrow> bytes option \<Rightarrow> save_outcome"
  chops_difference :: "image \<Rightarrow> image \<Rightarrow> string + image"

text \<open>The file store, and what a run does that can be observed from outside.\<close>

type_synonym store = "string \<rightharpoonup> bytes"

datatype message =
    Analyzing string
  | Screenshot_line string int
  | Forgery_line int
  | Total_line int
  | Failure_line string

datatype event =
    Opened string
  | Exif_read string
  | Exiftool_run string
  | Imread string
  | Saved string int
  | Printed message
  | Imshow gray
  | Image_show image

section \<open>The helpers\<close>

text \<open>\<^verbatim>\<open>Image.open(path)\<close>, which raises when the file is missing or is no image.\<close>

definition Image_open :: "env \<Rightarrow> store \<Rightarrow> string \<Rightarrow> (string + image) \<times> event list" where
  "Image_open E fs path =
     (case fs path of
        None \<Rightarrow> (Inl (errno_text E path), [Opened path])
      | Some b \<Rightarrow> (pil_decode E b, [Opened path]))"

text \<open>
  \<^verbatim>\<open>open_image\<close> returns the image or \<^verbatim>\<open>{"error": ...}\<close>; \<open>Inl msg\<close> is that
  dictionary, the value for which
  \<^verbatim>\<open>isinstance(img, dict) and 'error' in img\<close> holds.
\<close>

definition open_image :: "env \<Rightarrow> store \<Rightarrow> string \<Rightarrow> (string + image) \<times> event list" where
  "open_image E fs image_path =
     (case Image_open E fs image_path of
        (Inl e, ev) \<Rightarrow> (Inl (''Failed to open image: '' @ e), ev)
      | (Inr img, ev) \<Rightarrow> (Inr img, ev))"

definition extract_basic_metadata :: "env \<Rightarrow> store \<Rightarrow> string \<Rightarrow> dict \<times> event list" where
  "extract_basic_metadata E fs image_path =
     (case open_image E fs image_path of
        (Inl msg, ev) \<Rightarrow> (error_dict msg, ev)
      | (Inr img, ev) \<Rightarrow> (img_info img, ev))"

definition extract_exif_metadata :: "env \<Rightarrow> store \<Rightarrow> string \<Rightarrow> dict \<times> event list" where
  "extract_exif_metadata E fs image_path =
     (case (case fs image_path of
              None \<Rightarrow> Inl (errno_text E image_path)
            | Some b \<Rightarrow> exifread_process_file E b) of
        Inl e \<Rightarrow> (error_dict (''Failed to read EXIF metadata: '' @ e), [Exif_read image_path])
      | Inr tags \<Rightarrow> (tags, [Exif_read image_path]))"

text \<open>
  \<^verbatim>\<open>extract_exiftool_metadata\<close> returns the decoded standard output (\<open>Inr\<close>) or
  \<^verbatim>\<open>{"error": msg}\<close> (\<open>Inl msg\<close>).
\<close>

definition extract_exiftool_metadata ::
    "env \<Rightarrow> store \<Rightarrow> string \<Rightarrow> (string + string) \<times> event list" where
  "extract_exiftool_metadata E fs image_path =
     (case run_exiftool E image_path (fs image_path) of
        Inl e \<Rightarrow> (Inl (''Failed to run ExifTool: '' @ e), [Exiftool_run image_path])
      | Inr result \<Rightarrow>
          if returncode result \<noteq> 0 then
            (case stderr_decoded result of
               Inl e \<Rightarrow> (Inl (''Failed to run ExifTool: '' @ e), [Exiftool_run image_path])
             | Inr text \<Rightarrow> (Inl text, [Exiftool_run image_path]))
          else
            (case stdout_decoded result of
               Inl e \<Rightarrow> (Inl (''Failed to run ExifTool: '' @ e), [Exiftool_run image_path])
             | Inr text \<Rightarrow> (Inr text, [Exiftool_run image_path])))"

section \<open>Clone detection and error-level analysis\<close>

definition detect_clone_patterns :: "env \<Rightarrow> store \<Rightarrow> string \<Rightarrow> (string + gray) \<times> event list" where
  "detect_clone_patterns E fs image_path =
     (case cv2_imread_gray E (fs image_path) of
        None \<Rightarrow> (Inl ''Failed to read the image for clone detection.'', [Imread image_path])
      | Some gray_image \<Rightarrow> (Inr (cv2_Canny E gray_image 100 200), [Imread image_path]))"

text \<open>\<^verbatim>\<open>original.save(path, 'JPEG', quality=quality)\<close>.\<close>

definition Image_save ::
    "env \<Rightarrow> image \<Rightarrow> string \<Rightarrow> int \<Rightarrow> store \<Rightarrow> (string + unit) \<times> store" where
  "Image_save E img path quality fs =
     (case jpeg_save E img quality (fs path) of
        Save_ok b \<Rightarrow> (Inr (), fs(path \<mapsto> b))
      | Save_failed e left \<Rightarrow> (Inl e, fs(path := left)))"

definition ela_path :: string where
  "ela_path = ''ela_image.jpg''"

definition perform_ela_analysis ::
    "env \<Rightarrow> store \<Rightarrow> string \<Rightarrow> int \<Rightarrow> (string + image) \<times> event list \<times> store" where
  "perform_ela_analysis E fs image_path quality =
     (case open_image E fs image_path of
        (Inl msg, ev) \<Rightarrow> (Inl msg, ev, fs)
      | (Inr original, ev) \<Rightarrow>
          (case Image_save E original ela_path quality fs of
             (Inl e, fs1) \<Rightarrow>
               (Inl (''Failed to perform ELA: '' @ e), ev @ [Saved ela_path quality], fs1)
           | (Inr u, fs1) \<Rightarrow>
               (case Image_open E fs1 ela_path of
                  (Inl e, ev2) \<Rightarrow>
                    (Inl (''Failed to perform ELA: '' @ e),
                     ev @ [Saved ela_path quality] @ ev2, fs1)
                | (Inr ela_image, ev2) \<Rightarrow>
                    (case chops_difference E original ela_image of
                       Inl e \<Rightarrow>
                         (Inl (''Failed to perform ELA: '' @ e),
                          ev @ [Saved ela_path quality] @ ev2, fs1)
                     | Inr diff \<Rightarrow>
                         (Inr diff, ev @ [Saved ela_path quality] @ ev2, fs1)))))"

section \<open>Screenshot classifier\<close>

definition common_resolutions :: "(int \<times> int) list" where
  "common_resolutions =
     [(1920, 1080), (1366, 768), (1280, 720), (1440, 900),
      (1680, 1050), (1280, 800), (2560, 1440), (3840, 2160)]"

text \<open>The condition of the \<^verbatim>\<open>if\<close> inside the loop over the resolutions.\<close>

definition resolution_test :: "int \<Rightarrow> int \<Rightarrow> int \<times> int \<Rightarrow> bool" where
  "resolution_test width height res =
     ((int_ge_float width (int_times_float (fst res) float_0_9) \<and>
       int_le_float width (int_times_float (fst res) float_1_1)) \<and>
      (int_ge_float height (int_times_float (snd res) float_0_9) \<and>
       int_le_float height (int_times_float (snd res) float_1_1)))"

text \<open>The loop: it returns at the first resolution that passes the test.\<close>

fun resolution_loop :: "int \<Rightarrow> int \<Rightarrow> (int \<times> int) list \<Rightarrow> (string \<times> int) option" where
  "resolution_loop width height [] = None"
| "resolution_loop width height (res # rest) =
     (if resolution_test width height res
      then Some (''Possible Screenshot (Common Screen Resolution)'', 35)
      else resolution_loop width height rest)"

text \<open>
  \<^verbatim>\<open>check_image_for_screenshot\<close> returns \<^verbatim>\<open>{"error": msg}\<close> (\<open>Inl msg\<close>) or a
  pair of a label and a score.
\<close>

definition check_image_for_screenshot ::
    "env \<Rightarrow> store \<Rightarrow> string \<Rightarrow> (string + string \<times> int) \<times> event list" where
  "check_image_for_screenshot E fs image_path =
     (case open_image E fs image_path of
        (Inl msg, ev) \<Rightarrow> (Inl msg, ev)
      | (Inr img, ev) \<Rightarrow>
          (case resolution_loop (fst (img_size img)) (snd (img_size img)) common_resolutions of
             Some r \<Rightarrow> (Inr r, ev)
           | None \<Rightarrow>
               (case extract_exif_metadata E fs image_path of
                  (exif_metadata, ev2) \<Rightarrow>
                    if exif_metadata = [] \<or> \<not> key_in ''Image'' exif_metadata
                    then (Inr (''Possible Screenshot (Missing or Minimal EXIF Data)'', 50),
                          ev @ ev2)
                    else (Inr (''Original Image (Not a Screenshot)'', 0), ev @ ev2))))"

section \<open>Forgery scorer\<close>

text \<open>
  \<^verbatim>\<open>needle in exiftool_metadata\<close>: a substring test when the value is the tool's
  text, a key test when it is the dictionary \<^verbatim>\<open>{"error": msg}\<close>.
\<close>

definition py_in :: "string \<Rightarrow> string + string \<Rightarrow> bool" where
  "py_in needle x =
     (case x of
        Inl msg \<Rightarrow> key_in needle (error_dict msg)
      | Inr text \<Rightarrow> str_contains needle text)"

text \<open>\<^verbatim>\<open>'Software' in basic_metadata and basic_metadata['Software']\<close>, as a truth value.\<close>

definition software_test :: "dict \<Rightarrow> exn + bool" where
  "software_test basic_metadata =
     (if key_in ''Software'' basic_metadata
      then (case subscript basic_metadata ''Software'' of
              Inl e \<Rightarrow> Inl e
            | Inr v \<Rightarrow> Inr (truthy v))
      else Inr False)"

definition check_image_for_forgery ::
    "env \<Rightarrow> store \<Rightarrow> string \<Rightarrow> (exn + int) \<times> event list" where
  "check_image_for_forgery E fs image_path =
     (case extract_basic_metadata E fs image_path of
        (basic_metadata, ev1) \<Rightarrow>
     (case extract_exif_metadata E fs image_path of
        (exif_metadata, ev2) \<Rightarrow>
     (case extract_exiftool_metadata E fs image_path of
        (exiftool_metadata, ev3) \<Rightarrow>
     (case software_test basic_metadata of
        Inl e \<Rightarrow> (Inl e, ev1 @ ev2 @ ev3)
      | Inr software \<Rightarrow>
          (let forgery_score = 0;
               forgery_score = (if software then forgery_score + 40 else forgery_score);
               forgery_score =
                 (if py_in ''Inkscape'' exiftool_metadata \<or> py_in ''Photoshop'' exiftool_metadata
                  then forgery_score + 40 else forgery_score)
           in (Inr forgery_score, ev1 @ ev2 @ ev3))))))"

section \<open>Orchestrator\<close>

text \<open>The two assignments to \<^verbatim>\<open>total_forgery_score\<close>.\<close>

definition total_forgery_score :: "int \<Rightarrow> int \<Rightarrow> int" where
  "total_forgery_score forgery_score screenshot_score =
     min (forgery_score + screenshot_score) 100"

text \<open>
  \<^verbatim>\<open>analyze_image\<close> returns \<^verbatim>\<open>None\<close>; what it computes is printed. Unpacking the
  result of the screenshot check into two names raises \<^verbatim>\<open>ValueError\<close> when that
  result is the one-key dictionary \<^verbatim>\<open>{"error": msg}\<close>.
\<close>

definition report_clone :: "string + gray \<Rightarrow> event" where
  "report_clone clone_edges =
     (case clone_edges of Inr edges \<Rightarrow> Imshow edges | Inl msg \<Rightarrow> Printed (Failure_line msg))"

definition report_ela :: "string + image \<Rightarrow> event" where
  "report_ela ela_result =
     (case ela_result of Inr diff \<Rightarrow> Image_show diff | Inl msg \<Rightarrow> Printed (Failure_line msg))"

definition analyze_image ::
    "env \<Rightarrow> store \<Rightarrow> string \<Rightarrow> (exn + unit) \<times> event list \<times> store" where
  "analyze_image E fs image_path =
     (case check_image_for_screenshot E fs image_path of
        (Inl msg, ev1) \<Rightarrow>
          (Inl (ValueError ''not enough values to unpack (expected 2, got 1)''),
           Printed (Analyzing image_path) # ev1, fs)
      | (Inr (screenshot_result, screenshot_score), ev1) \<Rightarrow>
          (case check_image_for_forgery E fs image_path of
             (Inl e, ev2) \<Rightarrow>
               (Inl e,
                Printed (Analyzing image_path) # ev1
                  @ Printed (Screenshot_line screenshot_result screenshot_score) # ev2, fs)
           | (Inr forgery_score, ev2) \<Rightarrow>
               (case detect_clone_patterns E fs image_path of
                  (clone_edges, ev3) \<Rightarrow>
               (case perform_ela_analysis E fs image_path 90 of
                  (ela_result, ev4, fs') \<Rightarrow>
                    (Inr (),
                     Printed (Analyzing image_path) # ev1
                       @ Printed (Screenshot_line screenshot_result screenshot_score) # ev2
                       @ [Printed (Forgery_line forgery_score),
                          Printed (Total_line (total_forgery_score forgery_score screenshot_score))]
                       @ ev3 @ [report_clone clone_edges]
                       @ ev4 @ [report_ela ela_result], fs')))))"

text \<open>The totals a run prints, in order.\<close>

fun printed_totals :: "event list \<Rightarrow> int list" where
  "printed_totals [] = []"
| "printed_totals (Printed (Total_line t) # ev) = t # printed_totals ev"
| "printed_totals (e # ev) = printed_totals ev"

section \<open>The tolerance of the specification\<close>

text \<open>
  The specification's tolerance in exact arithmetic: \<open>x\<close> lies within ten percent of
  the reference dimension \<open>r\<close>. It is compared below with \<open>resolution_test\<close>, which
  is what the program computes in floating point.
\<close>

definition within_ten_percent :: "int \<Rightarrow> int \<Rightarrow> bool" where
  "within_ten_percent x r = (9 * r \<le> 10 * x \<and> 10 * x \<le> 11 * r)"

section \<open>Example environments\<close>

text \<open>
  A file store with one image file, and libraries that decode it to a given image, read
  given EXIF tags from it and give a fixed outcome of the external tool.
\<close>

definition example_store :: store where
  "example_store = [''photo.jpg'' \<mapsto> [255, 216]]"

definition example_env :: "image \<Rightarrow> string + dict \<Rightarrow> string + completed_process \<Rightarrow> env" where
  "example_env img tags tool =
     \<lparr> errno_text = (\<lambda>p. ''[Errno 2] No such file or directory''),
       pil_decode = (\<lambda>b. Inr img),
       exifread_process_file = (\<lambda>b. tags),
       run_exiftool = (\<lambda>p b. tool),
       cv2_imread_gray = (\<lambda>b. None),
       cv2_Canny = (\<lambda>g lo hi. g),
       jpeg_save = (\<lambda>i q old. Save_ok [255, 216, 255]),
       chops_difference = (\<lambda>a b. Inr a) \<rparr>"

definition small_photo :: image where
  "small_photo = \<lparr> img_size = (100, 100), img_info = [], img_data = [] \<rparr>"

definition edited_photo :: image where
  "edited_photo =
     \<lparr> img_size = (100, 100),
       img_info = [(''Software'', PStr ''Adobe Photoshop 2023'')],
       img_data = [] \<rparr>"

definition full_hd :: image where
  "full_hd = \<lparr> img_size = (1920, 1080), img_info = [], img_data = [] \<rparr>"

definition tool_ok :: "string \<Rightarrow> string + completed_process" where
  "tool_ok text = Inr \<lparr> returncode = 0, stdout_decoded = Inr text, stderr_decoded = Inr [] \<rparr>"

definition tool_failed :: "string \<Rightarrow> string + completed_process" where
  "tool_failed text = Inr \<lparr> returncode = 1, stdout_decoded = Inr [], stderr_decoded = Inr text \<rparr>"

section \<open>Properties of the helpers\<close>

text \<open>The substring test is the usual one: some prefix and suffix surround the needle.\<close>

lemma str_contains_sublist: "str_contains needle s = sublist needle s"
  by (induction s) (auto simp: sublist_Cons_right)

lemma str_contains_iff: "str_contains needle s \<longleftrightarrow> (\<exists>ps ss. s = ps @ needle @ ss)"
  by (simp add: str_contains_sublist sublist_def)

text \<open>On the failure dictionary, \<^verbatim>\<open>in\<close> asks for a key, and the only key is \<^verbatim>\<open>error\<close>.\<close>

lemma py_in_failure: "py_in needle (Inl msg) \<longleftrightarrow> needle = ''error''"
  by (auto simp: py_in_def key_in_def error_dict_def)

text \<open>The subscript is guarded by the membership test, so it never raises.\<close>

lemma software_test_total:
  "software_test d = Inr (case map_of d ''Software'' of None \<Rightarrow> False | Some v \<Rightarrow> truthy v)"
  by (simp add: software_test_def key_in_def subscript_def split: option.splits)

lemma forgery_score_eq:
  "fst (check_image_for_forgery E fs p) =
     Inr ((if (case map_of (fst (extract_basic_metadata E fs p)) ''Software'' of
                 None \<Rightarrow> False | Some v \<Rightarrow> truthy v) then 40 else 0)
          + (if py_in ''Inkscape'' (fst (extract_exiftool_metadata E fs p))
                \<or> py_in ''Photoshop'' (fst (extract_exiftool_metadata E fs p)) then 40 else 0))"
  by (simp add: check_image_for_forgery_def software_test_total Let_def split: prod.splits)

lemma open_image_events: "snd (open_image E fs p) = [Opened p]"
  by (simp add: open_image_def Image_open_def split: option.splits sum.splits prod.splits)

lemma open_image_fail:
  "fst (Image_open E fs p) = Inl e \<Longrightarrow>
   open_image E fs p = (Inl (''Failed to open image: '' @ e), [Opened p])"
  by (auto simp: open_image_def Image_open_def split: option.splits sum.splits prod.splits)

section \<open>Decode failure\<close>

text \<open>
  Claim C3. When the initial \<^verbatim>\<open>Image.open\<close> fails, the run ends in one failure handed
  to the caller: the \<^verbatim>\<open>ValueError\<close> of unpacking the one-key error dictionary. The
  only things done are the announcement and the failed open: no score is printed, no
  metadata is scored, no pixel transform runs, and the file store is as before.
\<close>

theorem analyze_image_decode_failure:
  assumes "fst (Image_open E fs image_path) = Inl e"
  shows "analyze_image E fs image_path =
           (Inl (ValueError ''not enough values to unpack (expected 2, got 1)''),
            [Printed (Analyzing image_path), Opened image_path], fs)"
  using open_image_fail [OF assms]
  by (simp add: analyze_image_def check_image_for_screenshot_def)

theorem analyze_image_decode_failure_witness:
  "fst (Image_open (example_env small_photo (Inr []) (tool_ok [])) Map.empty ''missing.png'')
     = Inl ''[Errno 2] No such file or directory'' \<and>
   analyze_image (example_env small_photo (Inr []) (tool_ok [])) Map.empty ''missing.png'' =
     (Inl (ValueError ''not enough values to unpack (expected 2, got 1)''),
      [Printed (Analyzing ''missing.png''), Opened ''missing.png''], Map.empty)"
  using analyze_image_decode_failure
    [of "example_env small_photo (Inr []) (tool_ok [])" Map.empty "''missing.png''"
        "''[Errno 2] No such file or directory''"]
  by (simp add: Image_open_def example_env_def)

text \<open>Definitions unfolded to run the examples and the helpers.\<close>

lemmas example_defs = example_env_def example_store_def small_photo_def edited_photo_def
  full_hd_def tool_ok_def tool_failed_def

lemmas helper_defs = extract_basic_metadata_def extract_exif_metadata_def
  extract_exiftool_metadata_def open_image_def Image_open_def

section \<open>Forgery score\<close>

text \<open>
  Claim C4. Call the first condition: the basic metadata has a \<^verbatim>\<open>Software\<close> entry
  whose value is true (non-empty); and the second: the external tool succeeded and its
  output contains \<^verbatim>\<open>Inkscape\<close> or \<^verbatim>\<open>Photoshop\<close>. The forgery score is 0 when
  neither holds, 40 when exactly one holds and 80 when both hold.
\<close>

theorem forgery_score_values:
  assumes "fst (extract_basic_metadata E fs p) = basic"
      and "fst (extract_exiftool_metadata E fs p) = tool"
  shows "(\<not> (\<exists>v. map_of basic ''Software'' = Some v \<and> truthy v) \<and>
          \<not> (\<exists>out. tool = Inr out \<and> (str_contains ''Inkscape'' out \<or> str_contains ''Photoshop'' out))
            \<longrightarrow> fst (check_image_for_forgery E fs p) = Inr 0) \<and>
         ((\<exists>v. map_of basic ''Software'' = Some v \<and> truthy v) \<noteq>
          (\<exists>out. tool = Inr out \<and> (str_contains ''Inkscape'' out \<or> str_contains ''Photoshop'' out))
            \<longrightarrow> fst (check_image_for_forgery E fs p) = Inr 40) \<and>
         ((\<exists>v. map_of basic ''Software'' = Some v \<and> truthy v) \<and>
          (\<exists>out. tool = Inr out \<and> (str_contains ''Inkscape'' out \<or> str_contains ''Photoshop'' out))
            \<longrightarrow> fst (check_image_for_forgery E fs p) = Inr 80)"
proof -
  have sw: "(case map_of basic ''Software'' of None \<Rightarrow> False | Some v \<Rightarrow> truthy v)
              = (\<exists>v. map_of basic ''Software'' = Some v \<and> truthy v)"
    by (simp split: option.splits)
  have ed: "(py_in ''Inkscape'' tool \<or> py_in ''Photoshop'' tool)
              = (\<exists>out. tool = Inr out \<and> (str_contains ''Inkscape'' out \<or> str_contains ''Photoshop'' out))"
    by (cases tool) (simp_all add: py_in_failure, simp_all add: py_in_def)
  show ?thesis
    unfolding forgery_score_eq assms sw ed by auto
qed

theorem forgery_score_values_witness:
  "fst (check_image_for_forgery
          (example_env small_photo (Inr []) (tool_ok ''File Type : JPEG'')) example_store ''photo.jpg'') = Inr 0 \<and>
   fst (check_image_for_forgery
          (example_env edited_photo (Inr []) (tool_ok ''File Type : JPEG'')) example_store ''photo.jpg'') = Inr 40 \<and>
   fst (check_image_for_forgery
          (example_env small_photo (Inr []) (tool_ok ''Creator Tool : Inkscape'')) example_store ''photo.jpg'') = Inr 40 \<and>
   fst (check_image_for_forgery
          (example_env edited_photo (Inr []) (tool_ok ''Software : Adobe Photoshop'')) example_store ''photo.jpg'') = Inr 80"
  using
    forgery_score_values [of "example_env small_photo (Inr []) (tool_ok ''File Type : JPEG'')"
      example_store "''photo.jpg''" "[]" "Inr ''File Type : JPEG''"]
    forgery_score_values [of "example_env edited_photo (Inr []) (tool_ok ''File Type : JPEG'')"
      example_store "''photo.jpg''" "[(''Software'', PStr ''Adobe Photoshop 2023'')]" "Inr ''File Type : JPEG''"]
    forgery_score_values [of "example_env small_photo (Inr []) (tool_ok ''Creator Tool : Inkscape'')"
      example_store "''photo.jpg''" "[]" "Inr ''Creator Tool : Inkscape''"]
    forgery_score_values [of "example_env edited_photo (Inr []) (tool_ok ''Software : Adobe Photoshop'')"
      example_store "''photo.jpg''" "[(''Software'', PStr ''Adobe Photoshop 2023'')]" "Inr ''Software : Adobe Photoshop''"]
  by (simp add: example_defs helper_defs)

text \<open>
  Claim C7. When the basic metadata is the failure dictionary or is empty, the score is
  what the tool check alone gives; when the tool metadata is a failure, the score is what
  the \<^verbatim>\<open>Software\<close> check alone gives; and the scorer always returns a number, it never
  raises.
\<close>

theorem forgery_failures_contribute_nothing:
  assumes "fst (extract_basic_metadata E fs p) = basic"
      and "fst (extract_exiftool_metadata E fs p) = tool"
  shows "(basic = error_dict msg \<or> basic = [] \<longrightarrow>
            fst (check_image_for_forgery E fs p) =
              Inr (if \<exists>out. tool = Inr out \<and>
                        (str_contains ''Inkscape'' out \<or> str_contains ''Photoshop'' out)
                   then 40 else 0)) \<and>
         ((\<exists>msg'. tool = Inl msg') \<longrightarrow>
            fst (check_image_for_forgery E fs p) =
              Inr (if \<exists>v. map_of basic ''Software'' = Some v \<and> truthy v then 40 else 0)) \<and>
         (\<exists>n. fst (check_image_for_forgery E fs p) = Inr n)"
proof -
  have sw: "(case map_of basic ''Software'' of None \<Rightarrow> False | Some v \<Rightarrow> truthy v)
              = (\<exists>v. map_of basic ''Software'' = Some v \<and> truthy v)"
    by (simp split: option.splits)
  have ed: "(py_in ''Inkscape'' tool \<or> py_in ''Photoshop'' tool)
              = (\<exists>out. tool = Inr out \<and> (str_contains ''Inkscape'' out \<or> str_contains ''Photoshop'' out))"
    by (cases tool) (simp_all add: py_in_failure, simp_all add: py_in_def)
  show ?thesis
    unfolding forgery_score_eq assms sw ed by (auto simp: error_dict_def)
qed

theorem forgery_failures_contribute_nothing_witness:
  "fst (check_image_for_forgery
          (example_env small_photo (Inr []) (tool_failed ''File not found'')) Map.empty ''gone.jpg'') = Inr 0 \<and>
   fst (check_image_for_forgery
          (example_env small_photo (Inr []) (tool_ok ''Software : Adobe Photoshop'')) example_store ''photo.jpg'') = Inr 40 \<and>
   fst (check_image_for_forgery
          (example_env edited_photo (Inr []) (Inl ''No such file: exiftool'')) example_store ''photo.jpg'') = Inr 40"
  using
    forgery_failures_contribute_nothing
      [of "example_env small_photo (Inr []) (tool_failed ''File not found'')" Map.empty "''gone.jpg''"
          "error_dict ''Failed to open image: [Errno 2] No such file or directory''"
          "Inl ''File not found''" "''Failed to open image: [Errno 2] No such file or directory''"]
    forgery_failures_contribute_nothing
      [of "example_env small_photo (Inr []) (tool_ok ''Software : Adobe Photoshop'')" example_store
          "''photo.jpg''" "[]" "Inr ''Software : Adobe Photoshop''" "[]"]
    forgery_failures_contribute_nothing
      [of "example_env edited_photo (Inr []) (Inl ''No such file: exiftool'')" example_store
          "''photo.jpg''" "[(''Software'', PStr ''Adobe Photoshop 2023'')]"
          "Inl ''Failed to run ExifTool: No such file: exiftool''" "[]"]
  by (simp add: example_defs helper_defs error_dict_def)

text \<open>
  Claim C10. When the external tool fails, neither \<^verbatim>\<open>'Inkscape' in ...\<close> nor
  \<^verbatim>\<open>'Photoshop' in ...\<close> holds of the failure dictionary, whatever its message says,
  and the score is what the \<^verbatim>\<open>Software\<close> check alone gives.
\<close>

theorem forgery_ignores_failure_text:
  assumes "fst (extract_exiftool_metadata E fs p) = Inl msg"
  shows "\<not> py_in ''Inkscape'' (fst (extract_exiftool_metadata E fs p)) \<and>
         \<not> py_in ''Photoshop'' (fst (extract_exiftool_metadata E fs p)) \<and>
         fst (check_image_for_forgery E fs p) =
           Inr (if \<exists>v. map_of (fst (extract_basic_metadata E fs p)) ''Software'' = Some v \<and> truthy v
                then 40 else 0)"
proof -
  have sw: "(case map_of (fst (extract_basic_metadata E fs p)) ''Software'' of
               None \<Rightarrow> False | Some v \<Rightarrow> truthy v)
              = (\<exists>v. map_of (fst (extract_basic_metadata E fs p)) ''Software'' = Some v \<and> truthy v)"
    by (simp split: option.splits)
  show ?thesis
    unfolding forgery_score_eq sw assms by (simp add: py_in_failure)
qed

theorem forgery_ignores_failure_text_witness:
  "fst (extract_exiftool_metadata
          (example_env small_photo (Inr []) (tool_failed ''Error: not a Photoshop or Inkscape file''))
          example_store ''photo.jpg'') = Inl ''Error: not a Photoshop or Inkscape file'' \<and>
   str_contains ''Photoshop'' ''Error: not a Photoshop or Inkscape file'' \<and>
   str_contains ''Inkscape'' ''Error: not a Photoshop or Inkscape file'' \<and>
   fst (check_image_for_forgery
          (example_env small_photo (Inr []) (tool_failed ''Error: not a Photoshop or Inkscape file''))
          example_store ''photo.jpg'') = Inr 0"
  using forgery_ignores_failure_text
    [of "example_env small_photo (Inr []) (tool_failed ''Error: not a Photoshop or Inkscape file'')"
        example_store "''photo.jpg''" "''Error: not a Photoshop or Inkscape file''"]
  by (simp add: example_defs helper_defs)

section \<open>The floating-point tolerance is the exact one\<close>

text \<open>
  For each reference dimension the two floating-point comparisons accept exactly the
  integers within ten percent of it.
\<close>

lemmas float_eval = int_times_float_def round_to_double_def round_half_even_def
  float_0_9_def float_1_1_def int_ge_float_def int_le_float_def bit_length.simps Let_def

lemma tolerance_exact:
  "(int_ge_float x (int_times_float 1920 float_0_9) \<and> int_le_float x (int_times_float 1920 float_1_1)) = within_ten_percent x 1920"
  "(int_ge_float x (int_times_float 1366 float_0_9) \<and> int_le_float x (int_times_float 1366 float_1_1)) = within_ten_percent x 1366"
  "(int_ge_float x (int_times_float 1280 float_0_9) \<and> int_le_float x (int_times_float 1280 float_1_1)) = within_ten_percent x 1280"
  "(int_ge_float x (int_times_float 1440 float_0_9) \<and> int_le_float x (int_times_float 1440 float_1_1)) = within_ten_percent x 1440"
  "(int_ge_float x (int_times_float 1680 float_0_9) \<and> int_le_float x (int_times_float 1680 float_1_1)) = within_ten_percent x 1680"
  "(int_ge_float x (int_times_float 2560 float_0_9) \<and> int_le_float x (int_times_float 2560 float_1_1)) = within_ten_percent x 2560"
  "(int_ge_float x (int_times_float 3840 float_0_9) \<and> int_le_float x (int_times_float 3840 float_1_1)) = within_ten_percent x 3840"
  "(int_ge_float x (int_times_float 1080 float_0_9) \<and> int_le_float x (int_times_float 1080 float_1_1)) = within_ten_percent x 1080"
  "(int_ge_float x (int_times_float 768 float_0_9) \<and> int_le_float x (int_times_float 768 float_1_1)) = within_ten_percent x 768"
  "(int_ge_float x (int_times_float 720 float_0_9) \<and> int_le_float x (int_times_float 720 float_1_1)) = within_ten_percent x 720"
  "(int_ge_float x (int_times_float 900 float_0_9) \<and> int_le_float x (int_times_float 900 float_1_1)) = within_ten_percent x 900"
  "(int_ge_float x (int_times_float 1050 float_0_9) \<and> int_le_float x (int_times_float 1050 float_1_1)) = within_ten_percent x 1050"
  "(int_ge_float x (int_times_float 800 float_0_9) \<and> int_le_float x (int_times_float 800 float_1_1)) = within_ten_percent x 800"
  "(int_ge_float x (int_times_float 2160 float_0_9) \<and> int_le_float x (int_times_float 2160 float_1_1)) = within_ten_percent x 2160"
  by (simp_all add: float_eval within_ten_percent_def) arith+

lemma resolution_test_exact:
  assumes "res \<in> set common_resolutions"
  shows "resolution_test width height res =
           (within_ten_percent width (fst res) \<and> within_ten_percent height (snd res))"
proof -
  from assms have "res \<in> {(1920, 1080), (1366, 768), (1280, 720), (1440, 900),
      (1680, 1050), (1280, 800), (2560, 1440), (3840, 2160)}"
    by (simp add: common_resolutions_def)
  then show ?thesis
    by (elim insertE emptyE) (simp_all add: resolution_test_def tolerance_exact)
qed

lemma resolution_loop_eq:
  "resolution_loop width height rs =
     (if \<exists>res \<in> set rs. resolution_test width height res
      then Some (''Possible Screenshot (Common Screen Resolution)'', 35) else None)"
  by (induction rs) auto

lemma resolution_loop_common:
  "resolution_loop width height common_resolutions =
     (if \<exists>res \<in> set common_resolutions.
           within_ten_percent width (fst res) \<and> within_ten_percent height (snd res)
      then Some (''Possible Screenshot (Common Screen Resolution)'', 35) else None)"
  unfolding resolution_loop_eq using resolution_test_exact by auto

text \<open>
  The two literals are the doubles nearest to \<open>9/10\<close> and \<open>11/10\<close>: 53-bit
  mantissas at most half a unit in the last place away.
\<close>

lemma float_literals_nearest:
  "2 ^ 52 \<le> fst float_0_9 \<and> fst float_0_9 < 2 ^ 53 \<and>
   \<bar>10 * fst float_0_9 - 9 * 2 ^ snd float_0_9\<bar> \<le> 5 \<and>
   2 ^ 52 \<le> fst float_1_1 \<and> fst float_1_1 < 2 ^ 53 \<and>
   \<bar>10 * fst float_1_1 - 11 * 2 ^ snd float_1_1\<bar> \<le> 5"
  by (simp add: float_0_9_def float_1_1_def)

lemma open_image_ok:
  "fs p = Some b \<Longrightarrow> pil_decode E b = Inr img \<Longrightarrow> open_image E fs p = (Inr img, [Opened p])"
  by (simp add: open_image_def Image_open_def)

section \<open>Screenshot classifier\<close>

text \<open>
  Claim C5. An image of exactly 1920 by 1080 is classified as a possible screenshot by
  resolution, with score 35, whatever the EXIF reader would return: the EXIF data is not
  read at all.
\<close>

theorem full_hd_is_screenshot:
  assumes "fs p = Some b" and "pil_decode E b = Inr img" and "img_size img = (1920, 1080)"
  shows "check_image_for_screenshot (E\<lparr>exifread_process_file := exif\<rparr>) fs p =
           (Inr (''Possible Screenshot (Common Screen Resolution)'', 35), [Opened p])"
proof -
  have "open_image (E\<lparr>exifread_process_file := exif\<rparr>) fs p = (Inr img, [Opened p])"
    using assms(1,2) by (simp add: open_image_ok)
  moreover have "resolution_loop 1920 1080 common_resolutions =
      Some (''Possible Screenshot (Common Screen Resolution)'', 35)"
    by (simp add: resolution_loop_common) (simp add: common_resolutions_def within_ten_percent_def)
  ultimately show ?thesis
    by (simp add: check_image_for_screenshot_def assms(3))
qed

theorem full_hd_is_screenshot_witness:
  "check_image_for_screenshot
     ((example_env full_hd (Inr []) (tool_ok []))
        \<lparr>exifread_process_file := (\<lambda>b. Inr [(''Image Make'', PStr ''Canon'')])\<rparr>)
     example_store ''photo.jpg'' =
     (Inr (''Possible Screenshot (Common Screen Resolution)'', 35), [Opened ''photo.jpg''])"
  using full_hd_is_screenshot
    [of example_store "''photo.jpg''" "[255, 216]" "example_env full_hd (Inr []) (tool_ok [])" full_hd
        "\<lambda>b. Inr [(''Image Make'', PStr ''Canon'')]"]
  by (simp add: example_defs)

text \<open>
  Claim C6. When the image decodes, its size is within ten percent of no reference
  resolution and reading the EXIF data fails, the classifier returns score 50 with the
  label for missing or minimal EXIF data; the failure is not passed on.
\<close>

theorem exif_failure_scores_fifty:
  assumes "fs p = Some b" and "pil_decode E b = Inr img"
      and "exifread_process_file E b = Inl e"
      and "\<forall>res \<in> set common_resolutions.
             \<not> (within_ten_percent (fst (img_size img)) (fst res) \<and>
                within_ten_percent (snd (img_size img)) (snd res))"
  shows "check_image_for_screenshot E fs p =
           (Inr (''Possible Screenshot (Missing or Minimal EXIF Data)'', 50),
            [Opened p, Exif_read p])"
proof -
  have "resolution_loop (fst (img_size img)) (snd (img_size img)) common_resolutions = None"
    using assms(4) by (simp add: resolution_loop_common)
  moreover have "extract_exif_metadata E fs p =
      (error_dict (''Failed to read EXIF metadata: '' @ e), [Exif_read p])"
    using assms(1,3) by (simp add: extract_exif_metadata_def)
  moreover have "open_image E fs p = (Inr img, [Opened p])"
    using assms(1,2) by (rule open_image_ok)
  ultimately show ?thesis
    by (simp add: check_image_for_screenshot_def error_dict_def key_in_def)
qed

theorem exif_failure_scores_fifty_witness:
  "check_image_for_screenshot (example_env small_photo (Inl ''bad EXIF header'') (tool_ok []))
     example_store ''photo.jpg'' =
     (Inr (''Possible Screenshot (Missing or Minimal EXIF Data)'', 50),
      [Opened ''photo.jpg'', Exif_read ''photo.jpg''])"
  using exif_failure_scores_fifty
    [of example_store "''photo.jpg''" "[255, 216]"
        "example_env small_photo (Inl ''bad EXIF header'') (tool_ok [])" small_photo
        "''bad EXIF header''"]
  by (simp add: example_defs common_resolutions_def within_ten_percent_def)

text \<open>
  The EXIF rule asks whether the tag dictionary has the key \<^verbatim>\<open>Image\<close> itself. Tags
  none of which is named exactly so give score 50 when no resolution matches.
\<close>

lemma screenshot_without_exact_image_key:
  assumes "fs p = Some b" and "pil_decode E b = Inr img"
      and "exifread_process_file E b = Inr tags" and "map_of tags ''Image'' = None"
      and "resolution_loop (fst (img_size img)) (snd (img_size img)) common_resolutions = None"
  shows "fst (check_image_for_screenshot E fs p) =
           Inr (''Possible Screenshot (Missing or Minimal EXIF Data)'', 50)"
proof -
  have "open_image E fs p = (Inr img, [Opened p])"
    using assms(1,2) by (rule open_image_ok)
  then show ?thesis
    using assms(1,3,4,5)
    by (simp add: check_image_for_screenshot_def extract_exif_metadata_def key_in_def)
qed

text \<open>
  Claim C2. An image that decodes, has size 100 by 100 (near no reference resolution)
  and whose EXIF data holds the tag \<^verbatim>\<open>Image Make\<close> gets score 50 and the label for
  missing or minimal EXIF data, not score 0 and the label of an original image.
\<close>

theorem image_group_tag_scores_fifty:
  "fst (open_image (example_env small_photo (Inr [(''Image Make'', PStr ''Canon'')]) (tool_ok []))
          example_store ''photo.jpg'') = Inr small_photo \<and>
   fst (extract_exif_metadata
          (example_env small_photo (Inr [(''Image Make'', PStr ''Canon'')]) (tool_ok []))
          example_store ''photo.jpg'') = [(''Image Make'', PStr ''Canon'')] \<and>
   prefix ''Image'' ''Image Make'' \<and>
   \<not> (\<exists>res \<in> set common_resolutions.
         within_ten_percent (fst (img_size small_photo)) (fst res) \<and>
         within_ten_percent (snd (img_size small_photo)) (snd res)) \<and>
   fst (check_image_for_screenshot
          (example_env small_photo (Inr [(''Image Make'', PStr ''Canon'')]) (tool_ok []))
          example_store ''photo.jpg'') =
     Inr (''Possible Screenshot (Missing or Minimal EXIF Data)'', 50)"
  by (simp add: check_image_for_screenshot_def resolution_loop_common helper_defs example_defs
      key_in_def)
    (simp add: common_resolutions_def within_ten_percent_def)

section \<open>Total score\<close>

text \<open>What each part of a run leaves in the trace, and the scores it can give.\<close>

lemma printed_totals_append:
  "printed_totals (a @ b) = printed_totals a @ printed_totals b"
  by (induction a rule: printed_totals.induct) simp_all

lemma extract_exif_events: "snd (extract_exif_metadata E fs p) = [Exif_read p]"
  by (simp add: extract_exif_metadata_def split: option.splits sum.splits)

lemma extract_exiftool_events: "snd (extract_exiftool_metadata E fs p) = [Exiftool_run p]"
  by (simp add: extract_exiftool_metadata_def split: option.splits sum.splits)

lemma extract_basic_events: "snd (extract_basic_metadata E fs p) = [Opened p]"
  using open_image_events [of E fs p]
  by (auto simp: extract_basic_metadata_def split: prod.splits sum.splits)

lemma screenshot_events:
  "snd (check_image_for_screenshot E fs p) = [Opened p] \<or>
   snd (check_image_for_screenshot E fs p) = [Opened p, Exif_read p]"
  using open_image_events [of E fs p] extract_exif_events [of E fs p]
  by (auto simp: check_image_for_screenshot_def split: prod.splits sum.splits option.splits)

lemma forgery_events:
  "snd (check_image_for_forgery E fs p) = [Opened p, Exif_read p, Exiftool_run p]"
  using extract_basic_events [of E fs p] extract_exif_events [of E fs p]
    extract_exiftool_events [of E fs p]
  by (auto simp: check_image_for_forgery_def software_test_total Let_def split: prod.splits)

lemma clone_events: "snd (detect_clone_patterns E fs p) = [Imread p]"
  by (simp add: detect_clone_patterns_def split: option.splits)

lemma ela_events:
  "set (fst (snd (perform_ela_analysis E fs p q))) \<subseteq> {Opened p, Saved ela_path q, Opened ela_path}"
  using open_image_events [of E fs p]
  by (auto simp: perform_ela_analysis_def Image_open_def
      split: prod.splits sum.splits option.splits)

lemma printed_totals_none:
  "\<forall>e \<in> set ev. \<forall>t. e \<noteq> Printed (Total_line t) \<Longrightarrow> printed_totals ev = []"
  by (induction ev rule: printed_totals.induct) auto

lemma screenshot_scores:
  "fst (check_image_for_screenshot E fs p) = Inr (label, s) \<Longrightarrow> s = 0 \<or> s = 35 \<or> s = 50"
  by (auto simp: check_image_for_screenshot_def resolution_loop_eq
      split: prod.splits sum.splits option.splits if_splits)

lemma forgery_scores:
  "fst (check_image_for_forgery E fs p) = Inr f \<Longrightarrow> f = 0 \<or> f = 40 \<or> f = 80"
  by (auto simp: forgery_score_eq split: if_splits)

text \<open>
  Claim C1. In a run whose screenshot check gives the score \<open>s\<close> and whose forgery
  check gives the score \<open>f\<close>, the orchestrator finishes and the one total it reports
  (it prints the total; the function itself returns nothing) is \<open>min 100 (s + f)\<close>.
  Both scores are non-negative, the total lies between 0 and 100, and the total does not
  decrease when either score grows.
\<close>

theorem analyze_image_total:
  assumes "fst (check_image_for_screenshot E fs p) = Inr (label, s)"
      and "fst (check_image_for_forgery E fs p) = Inr f"
  shows "fst (analyze_image E fs p) = Inr () \<and>
         printed_totals (fst (snd (analyze_image E fs p))) = [min 100 (s + f)] \<and>
         total_forgery_score f s = min 100 (s + f) \<and>
         0 \<le> s \<and> 0 \<le> f \<and> 0 \<le> min 100 (s + f) \<and> min 100 (s + f) \<le> 100 \<and>
         (\<forall>s' f'. s \<le> s' \<and> f \<le> f' \<longrightarrow>
            total_forgery_score f s \<le> total_forgery_score f' s')"
proof -
  obtain ev1 where c1: "check_image_for_screenshot E fs p = (Inr (label, s), ev1)"
    using assms(1) by (cases "check_image_for_screenshot E fs p") simp
  obtain ev2 where c2: "check_image_for_forgery E fs p = (Inr f, ev2)"
    using assms(2) by (cases "check_image_for_forgery E fs p") simp
  obtain clone ev3 where c3: "detect_clone_patterns E fs p = (clone, ev3)"
    by (cases "detect_clone_patterns E fs p")
  obtain ela ev4 fs' where c4: "perform_ela_analysis E fs p 90 = (ela, ev4, fs')"
    by (cases "perform_ela_analysis E fs p 90")
  have t1: "printed_totals ev1 = []"
    using screenshot_events [of E fs p] c1 by auto
  have t2: "printed_totals ev2 = []"
    using forgery_events [of E fs p] c2 by simp
  have t3: "printed_totals ev3 = []"
    using clone_events [of E fs p] c3 by simp
  have t4: "printed_totals ev4 = []"
    using ela_events [of E fs p 90] c4 by (intro printed_totals_none) auto
  have t5: "printed_totals (report_clone clone # ev) = printed_totals ev"
    "printed_totals (report_ela ela # ev) = printed_totals ev" for ev
    by (simp_all add: report_clone_def report_ela_def split: sum.splits)
  have run: "fst (analyze_image E fs p) = Inr ()"
    by (simp add: analyze_image_def c1 c2 c3 c4)
  have tot: "printed_totals (fst (snd (analyze_image E fs p))) = [total_forgery_score f s]"
    by (simp add: analyze_image_def c1 c2 c3 c4 printed_totals_append t1 t2 t3 t4 t5)
  have eq: "total_forgery_score f s = min 100 (s + f)"
    by (simp add: total_forgery_score_def add.commute min.commute)
  have s0: "0 \<le> s" using screenshot_scores [OF assms(1)] by auto
  have f0: "0 \<le> f" using forgery_scores [OF assms(2)] by auto
  have mono: "\<forall>s' f'. s \<le> s' \<and> f \<le> f' \<longrightarrow>
      total_forgery_score f s \<le> total_forgery_score f' s'"
    by (auto simp: total_forgery_score_def)
  from run tot eq s0 f0 mono show ?thesis by auto
qed

theorem analyze_image_total_witness:
  "fst (check_image_for_screenshot
          (example_env edited_photo (Inl ''bad EXIF header'') (tool_ok ''Software : Adobe Photoshop''))
          example_store ''photo.jpg'') =
     Inr (''Possible Screenshot (Missing or Minimal EXIF Data)'', 50) \<and>
   fst (check_image_for_forgery
          (example_env edited_photo (Inl ''bad EXIF header'') (tool_ok ''Software : Adobe Photoshop''))
          example_store ''photo.jpg'') = Inr 80 \<and>
   printed_totals (fst (snd (analyze_image
          (example_env edited_photo (Inl ''bad EXIF header'') (tool_ok ''Software : Adobe Photoshop''))
          example_store ''photo.jpg''))) = [100]"
proof -
  have a: "fst (check_image_for_screenshot
          (example_env edited_photo (Inl ''bad EXIF header'') (tool_ok ''Software : Adobe Photoshop''))
          example_store ''photo.jpg'') =
     Inr (''Possible Screenshot (Missing or Minimal EXIF Data)'', 50)"
    by (simp add: check_image_for_screenshot_def resolution_loop_common helper_defs example_defs
        key_in_def error_dict_def)
      (simp add: common_resolutions_def within_ten_percent_def)
  have b: "fst (check_image_for_forgery
          (example_env edited_photo (Inl ''bad EXIF header'') (tool_ok ''Software : Adobe Photoshop''))
          example_store ''photo.jpg'') = Inr 80"
    by (simp add: forgery_score_eq helper_defs example_defs py_in_def)
  from analyze_image_total [OF a b] a b show ?thesis by simp
qed

section \<open>The re-encoded file of the error-level analysis\<close>

lemma ela_open_failure:
  "fst (open_image E fs p) = Inl msg \<Longrightarrow>
   perform_ela_analysis E fs p quality = (Inl msg, [Opened p], fs)"
  using open_image_events [of E fs p]
  by (cases "open_image E fs p") (simp add: perform_ela_analysis_def)

lemma ela_other_paths:
  "path \<noteq> ela_path \<Longrightarrow> snd (snd (perform_ela_analysis E fs p quality)) path = fs path"
  by (auto simp: perform_ela_analysis_def Image_save_def
      split: prod.splits sum.splits save_outcome.splits)

lemma ela_artifact_kept:
  assumes "fst (open_image E fs p) = Inr img"
      and "jpeg_save E img quality (fs ela_path) = Save_ok b"
  shows "snd (snd (perform_ela_analysis E fs p quality)) ela_path = Some b \<and>
         Saved ela_path quality \<in> set (fst (snd (perform_ela_analysis E fs p quality)))"
  using assms
  by (cases "open_image E fs p")
    (auto simp: perform_ela_analysis_def Image_save_def
      split: prod.splits sum.splits save_outcome.splits)

text \<open>
  Claim C8, as amended. Every run of the error-level analysis writes its re-encoded
  file to the one fixed path \<^verbatim>\<open>ela_image.jpg\<close>, whatever the input path, and touches
  no other file. A run whose initial open fails returns at once and leaves the file store
  as it was. When the re-encoding succeeds, the file is in the store when the run
  returns, whether the rest of the run succeeds or not: no exit path deletes it.
\<close>

theorem ela_artifact_fixed_path_not_deleted:
  "(\<forall>path q. Saved path q \<in> set (fst (snd (perform_ela_analysis E fs p quality)))
       \<longrightarrow> path = ''ela_image.jpg'' \<and> q = quality) \<and>
   (\<forall>path. path \<noteq> ''ela_image.jpg''
       \<longrightarrow> snd (snd (perform_ela_analysis E fs p quality)) path = fs path) \<and>
   (\<forall>msg. fst (open_image E fs p) = Inl msg
       \<longrightarrow> perform_ela_analysis E fs p quality = (Inl msg, [Opened p], fs)) \<and>
   (\<forall>img b. fst (open_image E fs p) = Inr img \<and>
            jpeg_save E img quality (fs ''ela_image.jpg'') = Save_ok b
       \<longrightarrow> snd (snd (perform_ela_analysis E fs p quality)) ''ela_image.jpg'' = Some b \<and>
           Saved ''ela_image.jpg'' quality
             \<in> set (fst (snd (perform_ela_analysis E fs p quality))))"
proof -
  have saved: "\<forall>path q. Saved path q \<in> set (fst (snd (perform_ela_analysis E fs p quality)))
       \<longrightarrow> path = ''ela_image.jpg'' \<and> q = quality"
    using ela_events [of E fs p quality] by (auto simp: ela_path_def)
  have others: "\<forall>path. path \<noteq> ''ela_image.jpg''
       \<longrightarrow> snd (snd (perform_ela_analysis E fs p quality)) path = fs path"
    using ela_other_paths [of _ E fs p quality] by (simp add: ela_path_def)
  have early: "\<forall>msg. fst (open_image E fs p) = Inl msg
       \<longrightarrow> perform_ela_analysis E fs p quality = (Inl msg, [Opened p], fs)"
    using ela_open_failure by blast
  have kept: "\<forall>img b. fst (open_image E fs p) = Inr img \<and>
            jpeg_save E img quality (fs ''ela_image.jpg'') = Save_ok b
       \<longrightarrow> snd (snd (perform_ela_analysis E fs p quality)) ''ela_image.jpg'' = Some b \<and>
           Saved ''ela_image.jpg'' quality
             \<in> set (fst (snd (perform_ela_analysis E fs p quality)))"
    using ela_artifact_kept [of E fs p _ quality] unfolding ela_path_def by blast
  from saved others early kept show ?thesis by blast
qed

theorem ela_artifact_fixed_path_not_deleted_witness:
  "perform_ela_analysis (example_env small_photo (Inr []) (tool_ok [])) Map.empty ''missing.png'' 90 =
     (Inl ''Failed to open image: [Errno 2] No such file or directory'', [Opened ''missing.png''],
      Map.empty) \<and>
   snd (snd (perform_ela_analysis (example_env small_photo (Inr []) (tool_ok []))
               example_store ''photo.jpg'' 90)) ''ela_image.jpg'' = Some [255, 216, 255] \<and>
   snd (snd (perform_ela_analysis (example_env small_photo (Inr []) (tool_ok []))
               example_store ''photo.jpg'' 90)) ''photo.jpg'' = Some [255, 216] \<and>
   Saved ''ela_image.jpg'' 90 \<in> set (fst (snd (perform_ela_analysis
               (example_env small_photo (Inr []) (tool_ok [])) example_store ''photo.jpg'' 90)))"
proof -
  have a: "fst (open_image (example_env small_photo (Inr []) (tool_ok [])) Map.empty ''missing.png'')
             = Inl ''Failed to open image: [Errno 2] No such file or directory''"
    by (simp add: helper_defs example_defs)
  have b: "fst (open_image (example_env small_photo (Inr []) (tool_ok [])) example_store ''photo.jpg'')
             = Inr small_photo \<and>
           jpeg_save (example_env small_photo (Inr []) (tool_ok [])) small_photo 90
             (example_store ''ela_image.jpg'') = Save_ok [255, 216, 255]"
    by (simp add: helper_defs example_defs)
  have c: "example_store ''photo.jpg'' = Some [255, 216]"
    by (simp add: example_store_def)
  from
    ela_artifact_fixed_path_not_deleted
      [of "example_env small_photo (Inr []) (tool_ok [])" Map.empty "''missing.png''" 90]
    ela_artifact_fixed_path_not_deleted
      [of "example_env small_photo (Inr []) (tool_ok [])" example_store "''photo.jpg''" 90]
    a b c
  show ?thesis by simp
qed

text \<open>
  Claim C8 as stated fails: runs on two different images write the same path, and after
  a successful run on a store that had no such file the re-encoded file is still there.
\<close>

theorem ela_artifact_collides_and_persists:
  "''photo.jpg'' \<noteq> ''other.png'' \<and>
   (example_store(''other.png'' \<mapsto> [137, 80])) ''ela_image.jpg'' = None \<and>
   fst (perform_ela_analysis (example_env small_photo (Inr []) (tool_ok []))
          (example_store(''other.png'' \<mapsto> [137, 80])) ''photo.jpg'' 90) = Inr small_photo \<and>
   fst (snd (perform_ela_analysis (example_env small_photo (Inr []) (tool_ok []))
          (example_store(''other.png'' \<mapsto> [137, 80])) ''photo.jpg'' 90)) =
     [Opened ''photo.jpg'', Saved ''ela_image.jpg'' 90, Opened ''ela_image.jpg''] \<and>
   fst (snd (perform_ela_analysis (example_env small_photo (Inr []) (tool_ok []))
          (example_store(''other.png'' \<mapsto> [137, 80])) ''other.png'' 90)) =
     [Opened ''other.png'', Saved ''ela_image.jpg'' 90, Opened ''ela_image.jpg''] \<and>
   snd (snd (perform_ela_analysis (example_env small_photo (Inr []) (tool_ok []))
          (example_store(''other.png'' \<mapsto> [137, 80])) ''photo.jpg'' 90)) ''ela_image.jpg''
     = Some [255, 216, 255]"
  by (simp add: perform_ela_analysis_def Image_save_def ela_path_def helper_defs example_defs)

end
